theory Spec2Isabelle
  imports Complex_Main
begin

section \<open>Python values shared by both applications\<close>

text \<open>
  A Python \<open>str\<close> is a sequence of code points and \<open>len\<close> counts them. The model uses
  \<open>string\<close>, one \<open>char\<close> per code point, which covers the code points below 256; the
  whitespace and lower-case tables below are Python's for that range.
\<close>

definition newline :: char where
  "newline = CHR 0x0A"

text \<open>\<open>str(n)\<close> for a non-negative Python int: the decimal digits, most significant first.\<close>

definition digit :: "nat \<Rightarrow> char" where
  "digit d = ''0123456789'' ! d"

fun str_nat :: "nat \<Rightarrow> string" where
  "str_nat n = (if n < 10 then [digit n] else str_nat (n div 10) @ [digit (n mod 10)])"

declare str_nat.simps [simp del]

definition str_int :: "int \<Rightarrow> string" where
  "str_int i = (if i < 0 then CHR ''-'' # str_nat (nat (- i)) else str_nat (nat i))"

text \<open>
  \<open>str.isspace\<close> on one code point: the characters \<open>str.strip()\<close> removes when it is
  called without an argument.
\<close>

definition isspace :: "char \<Rightarrow> bool" where
  "isspace c = ((of_char c :: nat) \<in> {9, 10, 11, 12, 13, 28, 29, 30, 31, 32, 133, 160})"

definition strip :: "string \<Rightarrow> string" where
  "strip s = rev (dropWhile isspace (rev (dropWhile isspace s)))"

text \<open>
  \<open>str.lower()\<close>: the ASCII capitals and the Latin-1 capitals (all of 192..222 except the
  multiplication sign 215) move up by 32; every other code point below 256 is unchanged.
\<close>

definition lower_char :: "char \<Rightarrow> char" where
  "lower_char c =
     (let n = (of_char c :: nat)
      in if (65 \<le> n \<and> n \<le> 90) \<or> (192 \<le> n \<and> n \<le> 222 \<and> n \<noteq> 215)
         then char_of (n + 32) else c)"

definition lower :: "string \<Rightarrow> string" where
  "lower s = map lower_char s"

text \<open>
  Exceptions. \<open>Exception t m\<close> is an instance of a class \<open>t\<close> derived from
  \<open>Exception\<close> with \<open>str(e) = m\<close>; \<open>BaseException t m\<close> is one that is not
  (\<open>KeyboardInterrupt\<close>, \<open>asyncio.CancelledError\<close>), which \<open>except Exception\<close> lets through.
\<close>

datatype exc = Exception string string | BaseException string string

fun exc_type :: "exc \<Rightarrow> string" where
  "exc_type (Exception t m) = t"
| "exc_type (BaseException t m) = t"

fun exc_str :: "exc \<Rightarrow> string" where
  "exc_str (Exception t m) = m"
| "exc_str (BaseException t m) = m"

section \<open>backend/context.py\<close>

definition get_analysis_prompt :: "string \<Rightarrow> string" where
  "get_analysis_prompt code =
     ''Please analyze the following Python code for security vulnerabilities:''
       @ [newline, newline] @ code"

definition enhance_summary :: "nat \<Rightarrow> string \<Rightarrow> string" where
  "enhance_summary code_length agent_summary =
     ''Analyzed '' @ str_nat code_length @ '' characters of Python code. '' @ agent_summary"

section \<open>backend/server.py\<close>

subsection \<open>Request and response models\<close>

text \<open>
  Three fields are renamed, since a field is a constant of the theory: \<open>fix\<close> is a
  keyword, and \<open>code\<close> is the name of the parameters below. \<open>SecurityIssue.code\<close> is
  \<open>code_snippet\<close>, \<open>SecurityIssue.fix\<close> is \<open>fix_text\<close>, \<open>AnalyzeRequest.code\<close> is
  \<open>request_code\<close>. \<open>cvss_score\<close> is a Python float that the server never inspects;
  a finite double is a rational number.
\<close>

record SecurityIssue =
  title :: string
  description :: string
  code_snippet :: string
  fix_text :: string
  cvss_score :: rat
  severity :: string

record SecurityReport =
  summary :: string
  issues :: "SecurityIssue list"

record AnalyzeRequest =
  request_code :: string

datatype http_exception = HTTPException (status_code: nat) (detail: string)

subsection \<open>Validation and configuration helpers\<close>

text \<open>A function that returns \<open>None\<close> or raises \<open>HTTPException\<close> returns \<open>http_exception + unit\<close>.\<close>

definition validate_request :: "AnalyzeRequest \<Rightarrow> http_exception + unit" where
  "validate_request request =
     (if strip (request_code request) = []
      then Inl (HTTPException 400 ''No code provided for analysis'')
      else Inr ())"

text \<open>
  The process environment is an association list; \<open>os.getenv\<close> returns \<open>None\<close> for
  a missing name. \<open>not os.getenv(k)\<close> is true for \<open>None\<close> and for the empty string.
\<close>

type_synonym environ = "(string \<times> string) list"

definition os_getenv :: "environ \<Rightarrow> string \<Rightarrow> string option" where
  "os_getenv env k = map_of env k"

definition check_api_keys :: "environ \<Rightarrow> http_exception + unit" where
  "check_api_keys env =
     (case os_getenv env ''OPENAI_API_KEY'' of
        None \<Rightarrow> Inl (HTTPException 500 ''OpenAI API key not configured'')
      | Some v \<Rightarrow>
          if v = [] then Inl (HTTPException 500 ''OpenAI API key not configured'')
          else Inr ())"

subsection \<open>The delegated analysis\<close>

text \<open>
  The scanner server and the agent runner are external. Their behaviour is a parameter of
  the model: whether entering the \<open>async with create_semgrep_server()\<close> block raises, what
  \<open>Runner.run\<close> followed by \<open>final_output_as(SecurityReport)\<close> yields for a prompt, and
  whether leaving the block raises. Every call made to them is recorded, in order, so that
  "never invoked" is a statement about the record.
\<close>

record externals =
  semgrep_enter :: "exc option"
  runner_run :: "string \<Rightarrow> exc + SecurityReport"
  semgrep_exit :: "exc option"

datatype call =
    CreateSemgrepServer
  | EnterSemgrepServer
  | RunnerRun string
  | ExitSemgrepServer

definition run_security_analysis ::
  "externals \<Rightarrow> string \<Rightarrow> (exc + SecurityReport) \<times> call list" where
  "run_security_analysis ext code =
     (case semgrep_enter ext of
        Some e \<Rightarrow> (Inl e, [CreateSemgrepServer, EnterSemgrepServer])
      | None \<Rightarrow>
          (let prompt = get_analysis_prompt code;
               result = runner_run ext prompt;
               calls = [CreateSemgrepServer, EnterSemgrepServer, RunnerRun prompt,
                        ExitSemgrepServer]
           in case semgrep_exit ext of
                Some e \<Rightarrow> (Inl e, calls)
              | None \<Rightarrow> (result, calls)))"

definition format_analysis_response :: "string \<Rightarrow> SecurityReport \<Rightarrow> SecurityReport" where
  "format_analysis_response code report =
     (let enhanced_summary = enhance_summary (length code) (summary report)
      in \<lparr>summary = enhanced_summary, issues = issues report\<rparr>)"

subsection \<open>The endpoint\<close>

text \<open>
  What leaves \<open>analyze_code\<close> is an \<open>HTTPException\<close>, which the web framework turns into
  a response with that status code, or an exception that \<open>except Exception\<close> does not
  catch, or the report.
\<close>

datatype raised = Http http_exception | Uncaught exc

definition analyze_code ::
  "environ \<Rightarrow> externals \<Rightarrow> AnalyzeRequest \<Rightarrow> (raised + SecurityReport) \<times> call list" where
  "analyze_code env ext request =
     (case validate_request request of
        Inl h \<Rightarrow> (Inl (Http h), [])
      | Inr _ \<Rightarrow>
          (case check_api_keys env of
             Inl h \<Rightarrow> (Inl (Http h), [])
           | Inr _ \<Rightarrow>
               (case run_security_analysis ext (request_code request) of
                  (Inr report, calls) \<Rightarrow>
                    (Inr (format_analysis_response (request_code request) report), calls)
                | (Inl (Exception t m), calls) \<Rightarrow>
                    (Inl (Http (HTTPException 500 (''Analysis failed: '' @ m))), calls)
                | (Inl (BaseException t m), calls) \<Rightarrow>
                    (Inl (Uncaught (BaseException t m)), calls))))"

text \<open>Externals that answer every prompt with an empty report, for concrete runs.\<close>

definition empty_report :: SecurityReport where
  "empty_report = \<lparr>summary = ''No issues found.'', issues = []\<rparr>"

definition quiet_runner :: "string \<Rightarrow> exc + SecurityReport" where
  "quiet_runner prompt = Inr empty_report"

definition quiet_externals :: externals where
  "quiet_externals = \<lparr>semgrep_enter = None, runner_run = quiet_runner, semgrep_exit = None\<rparr>"


section \<open>airline.py\<close>

subsection \<open>The interpreter as the tools see it\<close>

text \<open>
  Both tools call into the interpreter: \<open>print\<close> writes to standard output,
  \<open>traceback.format_exc()\<close> renders the exception being handled, and \<open>calculate\<close> hands
  its argument to \<open>eval\<close>. None of the three is code of the program, so their behaviour is
  a parameter of the model.
  \<^item> \<open>stdout_write text\<close> is the exception that \<open>print(text, flush=True)\<close> raises, if
    any: a closed stream raises \<open>ValueError\<close>, a stream whose encoding has no byte
    sequence for a character of the text raises \<open>UnicodeEncodeError\<close>.
  \<^item> \<open>format_exc line e\<close> is the text \<open>traceback.format_exc()\<close> returns while \<open>e\<close>, raised
    by the statement at that line of \<open>airline.py\<close>, is being handled. It holds the stack
    entries, which name the files of the installation.
  \<^item> \<open>eval expr\<close> is the object \<open>eval(expr)\<close> returns, or the exception it raises.
  An object is used only through \<open>str()\<close>, and is represented by the string that gives.
\<close>

datatype pyobject = PyObject string

fun str :: "pyobject \<Rightarrow> string" where
  "str (PyObject s) = s"

record runtime =
  stdout_write :: "string \<Rightarrow> exc option"
  format_exc :: "nat \<Rightarrow> exc \<Rightarrow> string"
  eval :: "string \<Rightarrow> exc + pyobject"

text \<open>
  \<open>print(text, flush=True)\<close>: standard output is the list of lines written so far, and
  gains the line unless the write raises.
\<close>

definition print :: "runtime \<Rightarrow> string \<Rightarrow> string list \<Rightarrow> exc + string list" where
  "print rt text stdout =
     (case stdout_write rt text of
        Some e \<Rightarrow> Inl e
      | None \<Rightarrow> Inr (stdout @ [text]))"

subsection \<open>Floats and the price table\<close>

text \<open>
  The column \<open>price REAL\<close> has REAL affinity: SQLite turns an integer bound to it into a
  floating-point value, and \<open>sqlite3\<close> hands it back as a Python float. The only numbers
  the program ever stores are the seed prices, which are integers, so a float is
  represented by the integer it equals. \<open>Float n\<close> stands for a double only when
  \<open>\<bar>n\<bar> < 2^53\<close>, where every integer is a double; Python prints such a float as the
  digits of the integer followed by \<open>.0\<close>. Larger values, which Python prints with an
  exponent from \<open>10^16\<close> on, are outside the model.
\<close>

datatype pyfloat = Float int

definition float_of_int :: "int \<Rightarrow> pyfloat" where
  "float_of_int n = Float n"

fun float_str :: "pyfloat \<Rightarrow> string" where
  "float_str (Float n) = str_int n @ ''.0''"

text \<open>The seed dictionary, in insertion order, which is the order \<open>items()\<close> yields.\<close>

definition initial_ticket_prices :: "(string \<times> int) list" where
  "initial_ticket_prices =
     [(''london'', 799), (''paris'', 899), (''tokyo'', 1400), (''sydney'', 2999)]"

text \<open>
  The file \<open>prices.db\<close>. Either \<open>sqlite3.connect\<close> raises, or \<open>cursor.execute\<close> does
  (both with an error class of \<open>sqlite3\<close>, all of which derive from \<open>Exception\<close>, and
  its message), or the file opens. Then \<open>Database None\<close> is a file without a table
  \<open>prices\<close>, and \<open>Database (Some rows)\<close> is a file whose table \<open>prices\<close> has the schema of
  the program's own \<open>CREATE TABLE\<close> statement, \<open>city TEXT PRIMARY KEY, price REAL\<close>, and
  holds these rows in insertion order. A table \<open>prices\<close> created elsewhere with another
  schema is outside the model: \<open>CREATE TABLE IF NOT EXISTS\<close> would leave it as it is.

  Rows are kept as a list, so that a second row for a city would show. The primary key
  allows no such row; \<open>primary_key_holds\<close> says so, and is a hypothesis wherever a
  statement is about an arbitrary table.
\<close>

type_synonym row = "string \<times> pyfloat"

datatype storage =
    CannotConnect string string
  | CannotExecute string string
  | Database "row list option"

definition primary_key_holds :: "row list \<Rightarrow> bool" where
  "primary_key_holds rows = distinct (map fst rows)"

fun sqlite3_connect :: "storage \<Rightarrow> exc + storage" where
  "sqlite3_connect (CannotConnect t m) = Inl (Exception t m)"
| "sqlite3_connect (CannotExecute t m) = Inr (CannotExecute t m)"
| "sqlite3_connect (Database t) = Inr (Database t)"

subsection \<open>Seeding at import\<close>

text \<open>\<open>CREATE TABLE IF NOT EXISTS prices (city TEXT PRIMARY KEY, price REAL)\<close>\<close>

fun create_table_if_not_exists :: "row list option \<Rightarrow> row list" where
  "create_table_if_not_exists None = []"
| "create_table_if_not_exists (Some rows) = rows"

text \<open>
  \<open>INSERT OR IGNORE INTO prices (city, price) VALUES (?, ?)\<close> with a Python int bound to
  \<open>price\<close>, on a table with the primary key on \<open>city\<close>: a row whose city is already a key
  is left alone.
\<close>

definition insert_or_ignore :: "string \<Rightarrow> int \<Rightarrow> row list \<Rightarrow> row list" where
  "insert_or_ignore city price rows =
     (case map_of rows city of
        Some p \<Rightarrow> rows
      | None \<Rightarrow> rows @ [(city, float_of_int price)])"

fun insert_all :: "(string \<times> int) list \<Rightarrow> row list \<Rightarrow> row list" where
  "insert_all [] rows = rows"
| "insert_all ((city, price) # items) rows = insert_all items (insert_or_ignore city price rows)"

text \<open>The module-level block that runs once per process start.\<close>

fun seed_database :: "storage \<Rightarrow> exc + storage" where
  "seed_database (CannotConnect t m) = Inl (Exception t m)"
| "seed_database (CannotExecute t m) = Inl (Exception t m)"
| "seed_database (Database t) =
     Inr (Database (Some (insert_all initial_ticket_prices (create_table_if_not_exists t))))"

text \<open>\<open>n\<close> process starts, one after the other, on the same file.\<close>

fun startups :: "nat \<Rightarrow> storage \<Rightarrow> exc + storage" where
  "startups 0 db = Inr db"
| "startups (Suc n) db = (case seed_database db of Inl e \<Rightarrow> Inl e | Inr db' \<Rightarrow> startups n db')"

text \<open>
  What seeding has to add to a table, in the words of the specification: a row for each
  seed city that is not yet a key, in seed order, and nothing for a city that is.
\<close>

definition missing_seeds :: "row list \<Rightarrow> row list" where
  "missing_seeds rows =
     map (\<lambda>(city, price). (city, float_of_int price))
       (filter (\<lambda>(city, price). map_of rows city = None) initial_ticket_prices)"

subsection \<open>The price tool\<close>

text \<open>
  \<open>SELECT price FROM prices WHERE city = ?\<close> followed by \<open>fetchone()\<close>: the price of
  the first row with that city (text compares byte for byte), or \<open>None\<close>.
\<close>

fun select_price :: "storage \<Rightarrow> string \<Rightarrow> exc + pyfloat option" where
  "select_price (CannotConnect t m) city = Inl (Exception t m)"
| "select_price (CannotExecute t m) city = Inl (Exception t m)"
| "select_price (Database None) city =
     Inl (Exception ''sqlite3.OperationalError'' ''no such table: prices'')"
| "select_price (Database (Some rows)) city = Inr (map_of rows city)"

text \<open>
  The tool. The \<open>print\<close> at line 105 comes before the \<open>try\<close> at line 107, so what it
  raises leaves the function. The \<open>try\<close> block is \<open>body\<close>, which keeps the line of the
  statement that raised: 111 for \<open>sqlite3.connect\<close>, 115 for \<open>cursor.execute\<close>.
  \<open>except Exception\<close> catches the first kind of exception only.
\<close>

definition get_ticket_price ::
  "runtime \<Rightarrow> storage \<Rightarrow> string \<Rightarrow> string list \<Rightarrow> (exc + string) \<times> string list" where
  "get_ticket_price rt db city stdout =
     (case print rt (''TOOL CALLED: Getting price for '' @ city) stdout of
        Inl e \<Rightarrow> (Inl e, stdout)
      | Inr stdout' \<Rightarrow>
          (let city_normalised = lower city;
               body =
                 (case sqlite3_connect db of
                    Inl e \<Rightarrow> Inl (111, e)
                  | Inr conn \<Rightarrow>
                      (case select_price conn city_normalised of
                         Inl e \<Rightarrow> Inl (115, e)
                       | Inr result \<Rightarrow>
                           (case result of
                              Some price \<Rightarrow> Inr (''$'' @ float_str price)
                            | None \<Rightarrow> Inr ''Not found'')))
           in case body of
                Inr s \<Rightarrow> (Inr s, stdout')
              | Inl (line, Exception t m) \<Rightarrow>
                  (Inr (''Error: '' @ format_exc rt line (Exception t m)), stdout')
              | Inl (line, BaseException t m) \<Rightarrow> (Inl (BaseException t m), stdout')))"

subsection \<open>The expression tool\<close>

text \<open>
  \<open>calculate\<close> has the same shape: the \<open>print\<close> at line 144 is before the \<open>try\<close> at
  line 145, and the body is \<open>str(eval(expr))\<close> at line 147.
\<close>

definition calculate ::
  "runtime \<Rightarrow> string \<Rightarrow> string list \<Rightarrow> (exc + string) \<times> string list" where
  "calculate rt expr stdout =
     (case print rt (''TOOL CALLED: Calculating '' @ expr) stdout of
        Inl e \<Rightarrow> (Inl e, stdout)
      | Inr stdout' \<Rightarrow>
          (case eval rt expr of
             Inr v \<Rightarrow> (Inr (str v), stdout')
           | Inl (Exception t m) \<Rightarrow>
               (Inr (''Error: '' @ format_exc rt 147 (Exception t m)), stdout')
           | Inl (BaseException t m) \<Rightarrow> (Inl (BaseException t m), stdout')))"

subsection \<open>Interpreters for concrete runs\<close>

text \<open>A standard output that accepts every write, and one that has been closed.\<close>

definition accepting :: "string \<Rightarrow> exc option" where
  "accepting text = None"

definition closed_file :: "string \<Rightarrow> exc option" where
  "closed_file text = Some (Exception ''ValueError'' ''I/O operation on closed file.'')"

text \<open>
  A stand-in for \<open>traceback.format_exc()\<close> that prints the header and the line naming the
  exception, with no stack entry between them.
\<close>

definition short_format_exc :: "nat \<Rightarrow> exc \<Rightarrow> string" where
  "short_format_exc line e =
     ''Traceback (most recent call last):'' @ [newline]
       @ exc_type e @ '': '' @ exc_str e @ [newline]"

text \<open>
  Modelled from the spec: Python's \<open>eval\<close>, which is the interpreter and no code of the
  program, on the two expressions the specification names. \<open>799 * 0.9\<close> evaluates to the
  float 719.1, whose string form is \<open>719.1\<close>; \<open>799 *\<close> is malformed, and so is rejected
  with \<open>SyntaxError\<close>. The specification says nothing of other expressions; this
  evaluator rejects them too.
\<close>

definition spec_eval :: "string \<Rightarrow> exc + pyobject" where
  "spec_eval expr =
     (if expr = ''799 * 0.9'' then Inr (PyObject ''719.1'')
      else Inl (Exception ''SyntaxError'' ''invalid syntax (<string>, line 1)''))"

text \<open>
  An evaluator for which every expression is the call \<open>exit()\<close>: \<open>eval\<close> raises
  \<open>SystemExit\<close>, which does not derive from \<open>Exception\<close>.
\<close>

definition exit_eval :: "string \<Rightarrow> exc + pyobject" where
  "exit_eval expr = Inl (BaseException ''SystemExit'' ''None'')"

definition working_runtime :: runtime where
  "working_runtime =
     \<lparr>stdout_write = accepting, format_exc = short_format_exc, eval = spec_eval\<rparr>"

definition exiting_runtime :: runtime where
  "exiting_runtime =
     \<lparr>stdout_write = accepting, format_exc = short_format_exc, eval = exit_eval\<rparr>"

definition closed_stdout_runtime :: runtime where
  "closed_stdout_runtime =
     \<lparr>stdout_write = closed_file, format_exc = short_format_exc, eval = spec_eval\<rparr>"

text \<open>
  A letter-case variant of a name: the same length, each position holding the letter of
  the name or its capital.
\<close>

definition upper_char :: "char \<Rightarrow> char" where
  "upper_char c =
     (let n = (of_char c :: nat)
      in if 97 \<le> n \<and> n \<le> 122 then char_of (n - 32) else c)"

definition case_variant :: "string \<Rightarrow> string \<Rightarrow> bool" where
  "case_variant s name = list_all2 (\<lambda>c d. c = d \<or> c = upper_char d) s name"

section \<open>Properties of the analyzer backend\<close>

subsection \<open>Helper facts\<close>

lemma str_nat_42: "str_nat 42 = ''42''"
  by (simp add: str_nat.simps digit_def)

lemma strip_all_space: "(\<forall>c\<in>set s. isspace c) \<Longrightarrow> strip s = []"
proof -
  assume "\<forall>c\<in>set s. isspace c"
  then have h: "dropWhile isspace s = []" by simp
  show ?thesis unfolding strip_def h by simp
qed

lemma strip_empty_iff: "strip s = [] \<longleftrightarrow> (\<forall>c\<in>set s. isspace c)"
proof
  assume "strip s = []"
  then have "\<forall>x\<in>set (dropWhile isspace s). isspace x" by (simp add: strip_def)
  then have "dropWhile isspace s = []" by (metis hd_dropWhile hd_in_set)
  then show "\<forall>c\<in>set s. isspace c" by simp
qed (rule strip_all_space)

text \<open>Whenever the delegated analysis is entered, the record of calls is not empty.\<close>

lemma run_security_analysis_recorded:
  "hd (snd (run_security_analysis ext code)) = CreateSemgrepServer
   \<and> snd (run_security_analysis ext code) \<noteq> []"
  by (simp add: run_security_analysis_def Let_def split: option.splits)

subsection \<open>The response formatter\<close>

text \<open>
  C1, as amended. For every report with summary \<open>S\<close> and every code string of length
  \<open>N\<close>, the summary of the formatted response is \<open>Analyzed N characters of Python code. \<close>
  followed by \<open>S\<close>: the prefix written in \<open>enhance_summary\<close> says "of Python code",
  not "of code".
\<close>

theorem format_analysis_response_summary:
  "summary (format_analysis_response code report) =
     ''Analyzed '' @ str_nat (length code) @ '' characters of Python code. '' @ summary report"
  by (simp add: format_analysis_response_def enhance_summary_def)

text \<open>
  The claim as written fails for a code string of 42 characters and the summary
  \<open>No issues found.\<close>: the result is not the string the claim gives.
\<close>

theorem format_analysis_response_summary_counterexample:
  "length (replicate 42 CHR ''x'') = 42
   \<and> summary (format_analysis_response (replicate 42 CHR ''x'')
         \<lparr>summary = ''No issues found.'', issues = []\<rparr>)
       = ''Analyzed 42 characters of Python code. No issues found.''
   \<and> summary (format_analysis_response (replicate 42 CHR ''x'')
         \<lparr>summary = ''No issues found.'', issues = []\<rparr>)
       \<noteq> ''Analyzed 42 characters of code. No issues found.''"
  by (simp add: format_analysis_response_def enhance_summary_def str_nat_42)

text \<open>
  C8. \<open>format_analysis_response\<close> returns the report it was given with the summary field
  replaced and nothing else changed: the issues list is the same list, in order and
  content.
\<close>

theorem format_analysis_response_keeps_issues:
  "format_analysis_response code report =
     report\<lparr>summary := enhance_summary (length code) (summary report)\<rparr>
   \<and> issues (format_analysis_response code report) = issues report"
  by (simp add: format_analysis_response_def)

text \<open>
  C9, as amended. The formatter is a function of the code and the report alone, so two
  runs on the same pair give the same output; it is not idempotent. Applied to its own
  output it puts the size statement in front a second time, which differs from the
  output of one application, and it leaves the issues as they were.
\<close>

theorem format_analysis_response_twice:
  "format_analysis_response code (format_analysis_response code report) =
     report\<lparr>summary :=
       enhance_summary (length code) (enhance_summary (length code) (summary report))\<rparr>
   \<and> format_analysis_response code (format_analysis_response code report)
       \<noteq> format_analysis_response code report"
  by (simp add: format_analysis_response_def enhance_summary_def)

text \<open>Idempotence fails already on a one-character code string and a report without issues.\<close>

theorem format_analysis_response_idempotent_counterexample:
  "format_analysis_response ''x''
     (format_analysis_response ''x'' \<lparr>summary = ''No issues found.'', issues = []\<rparr>)
   \<noteq> format_analysis_response ''x'' \<lparr>summary = ''No issues found.'', issues = []\<rparr>"
  by (simp add: format_analysis_response_def enhance_summary_def)

subsection \<open>The analysis endpoint\<close>

text \<open>
  C2. When the code of the request is empty or holds only whitespace, the endpoint raises
  \<open>HTTPException\<close> with status 400, whatever the environment and the external services
  are, and the record of calls is empty: neither the scanner server nor the agent runner
  was touched.
\<close>

theorem analyze_code_blank_400:
  "\<forall>c\<in>set (request_code request). isspace c \<Longrightarrow>
   analyze_code env ext request =
     (Inl (Http (HTTPException 400 ''No code provided for analysis'')), [])"
  by (simp add: analyze_code_def validate_request_def strip_all_space)

theorem analyze_code_blank_400_witness:
  "list_all isspace (request_code \<lparr>request_code = [CHR '' '', newline]\<rparr>)
   \<and> analyze_code [(''OPENAI_API_KEY'', ''sk'')] quiet_externals
        \<lparr>request_code = [CHR '' '', newline]\<rparr>
       = (Inl (Http (HTTPException 400 ''No code provided for analysis'')), [])"
  using analyze_code_blank_400 [of "\<lparr>request_code = [CHR '' '', newline]\<rparr>"
      "[(''OPENAI_API_KEY'', ''sk'')]" quiet_externals]
  by (simp add: isspace_def newline_def)

text \<open>
  C3, as amended. When the code of the request is not empty after stripping whitespace
  and \<open>OPENAI_API_KEY\<close> is absent from the environment, the endpoint raises
  \<open>HTTPException\<close> with status 500 and the detail \<open>OpenAI API key not configured\<close>, and the
  record of calls is empty: the scanner connection was not attempted.
\<close>

theorem analyze_code_missing_key_500:
  "strip (request_code request) \<noteq> [] \<Longrightarrow>
   os_getenv env ''OPENAI_API_KEY'' = None \<Longrightarrow>
   analyze_code env ext request =
     (Inl (Http (HTTPException 500 ''OpenAI API key not configured'')), [])"
  by (simp add: analyze_code_def validate_request_def check_api_keys_def)

theorem analyze_code_missing_key_500_witness:
  "strip (request_code \<lparr>request_code = ''x = 1''\<rparr>) \<noteq> []
   \<and> os_getenv [(''ENVIRONMENT'', ''production'')] ''OPENAI_API_KEY'' = None
   \<and> analyze_code [(''ENVIRONMENT'', ''production'')] quiet_externals
        \<lparr>request_code = ''x = 1''\<rparr>
       = (Inl (Http (HTTPException 500 ''OpenAI API key not configured'')), [])"
proof -
  have a: "strip (request_code \<lparr>request_code = ''x = 1''\<rparr>) \<noteq> []"
    by (simp add: strip_def isspace_def)
  have b: "os_getenv [(''ENVIRONMENT'', ''production'')] ''OPENAI_API_KEY'' = None"
    by (simp add: os_getenv_def)
  show ?thesis
    using a b analyze_code_missing_key_500 [OF a b, of quiet_externals] by simp
qed

text \<open>
  Code that is not empty but holds a single space, with the key absent, is answered with
  400, not 500.
\<close>

theorem analyze_code_missing_key_500_counterexample:
  "request_code \<lparr>request_code = '' ''\<rparr> \<noteq> []
   \<and> os_getenv [] ''OPENAI_API_KEY'' = None
   \<and> analyze_code [] quiet_externals \<lparr>request_code = '' ''\<rparr>
       = (Inl (Http (HTTPException 400 ''No code provided for analysis'')), [])"
  by (simp add: analyze_code_def validate_request_def strip_def isspace_def os_getenv_def)

text \<open>
  C10. Validation comes before the credential check. For a request whose code is empty
  or whitespace only, sent while \<open>OPENAI_API_KEY\<close> is absent, the credential check on its
  own would raise 500, and the endpoint raises 400.
\<close>

theorem analyze_code_400_before_500:
  "\<forall>c\<in>set (request_code request). isspace c \<Longrightarrow>
   os_getenv env ''OPENAI_API_KEY'' = None \<Longrightarrow>
   check_api_keys env = Inl (HTTPException 500 ''OpenAI API key not configured'')
   \<and> fst (analyze_code env ext request)
       = Inl (Http (HTTPException 400 ''No code provided for analysis''))"
  by (simp add: analyze_code_def validate_request_def check_api_keys_def strip_all_space)

theorem analyze_code_400_before_500_witness:
  "list_all isspace (request_code \<lparr>request_code = []\<rparr>)
   \<and> os_getenv [] ''OPENAI_API_KEY'' = None
   \<and> check_api_keys [] = Inl (HTTPException 500 ''OpenAI API key not configured'')
   \<and> fst (analyze_code [] quiet_externals \<lparr>request_code = []\<rparr>)
       = Inl (Http (HTTPException 400 ''No code provided for analysis''))"
proof -
  have a: "\<forall>c\<in>set (request_code \<lparr>request_code = []\<rparr>). isspace c" by simp
  have b: "os_getenv [] ''OPENAI_API_KEY'' = None" by (simp add: os_getenv_def)
  show ?thesis
    using a b analyze_code_400_before_500 [OF a b, of quiet_externals] by simp
qed

section \<open>Properties of the airline tools\<close>

subsection \<open>Seeding\<close>

lemma seed_database_fresh:
  "seed_database (Database None) =
     Inr (Database (Some [(''london'', Float 799), (''paris'', Float 899),
                          (''tokyo'', Float 1400), (''sydney'', Float 2999)]))"
  by (simp add: initial_ticket_prices_def insert_or_ignore_def float_of_int_def)

lemma insert_or_ignore_present:
  "map_of rows city \<noteq> None \<Longrightarrow> insert_or_ignore city price rows = rows"
  by (auto simp: insert_or_ignore_def)

lemma insert_or_ignore_keys:
  "fst ` set (insert_or_ignore city price rows) = insert city (fst ` set rows)"
proof (cases "map_of rows city")
  case None
  then show ?thesis by (simp add: insert_or_ignore_def)
next
  case (Some p)
  then have "(city, p) \<in> set rows" by (rule map_of_SomeD)
  then have "city \<in> fst ` set rows" by force
  with Some show ?thesis by (auto simp: insert_or_ignore_def)
qed

text \<open>The primary key stays a key: no insertion creates a second row for a city.\<close>

lemma insert_or_ignore_distinct:
  "distinct (map fst rows) \<Longrightarrow> distinct (map fst (insert_or_ignore city price rows))"
  by (auto simp: insert_or_ignore_def map_of_eq_None_iff split: option.splits)

lemma insert_all_keys:
  "fst ` set (insert_all items rows) = fst ` set items \<union> fst ` set rows"
  by (induction items rows rule: insert_all.induct) (auto simp: insert_or_ignore_keys)

lemma insert_all_distinct:
  "distinct (map fst rows) \<Longrightarrow> distinct (map fst (insert_all items rows))"
  by (induction items rows rule: insert_all.induct) (auto simp: insert_or_ignore_distinct)

lemma insert_all_present:
  "fst ` set items \<subseteq> fst ` set rows \<Longrightarrow> insert_all items rows = rows"
  by (induction items rows rule: insert_all.induct)
     (auto simp: insert_or_ignore_present map_of_eq_None_iff)

lemma seed_database_again:
  "seed_database db = Inr db' \<Longrightarrow> seed_database db' = Inr db'"
  by (cases db) (auto simp: insert_all_present insert_all_keys)

lemma startups_after_seeding:
  "seed_database db = Inr db' \<Longrightarrow> startups n db' = Inr db'"
  by (induction n) (auto simp: seed_database_again)

text \<open>
  The loop of insertions adds exactly the missing seeds. A later seed city is looked up
  in the table as the earlier insertions left it, which changes nothing because the seed
  cities differ from one another.
\<close>

lemma insert_or_ignore_append:
  "insert_or_ignore city price rows =
     rows @ (if map_of rows city = None then [(city, float_of_int price)] else [])"
  by (auto simp: insert_or_ignore_def split: option.splits)

lemma map_of_insert_or_ignore_other:
  "c' \<noteq> c \<Longrightarrow> (map_of (insert_or_ignore c p rows) c' = None) = (map_of rows c' = None)"
  by (simp add: map_of_eq_None_iff insert_or_ignore_keys)

lemma insert_all_append:
  "distinct (map fst items) \<Longrightarrow>
   insert_all items rows =
     rows @ map (\<lambda>(city, price). (city, float_of_int price))
              (filter (\<lambda>(city, price). map_of rows city = None) items)"
proof (induction items arbitrary: rows)
  case Nil
  show ?case by simp
next
  case (Cons item items)
  obtain c p where item: "item = (c, p)" by (cases item)
  from Cons.prems have notin: "c \<notin> fst ` set items" and d: "distinct (map fst items)"
    by (auto simp: item)
  have same: "filter (\<lambda>(city, price). map_of (insert_or_ignore c p rows) city = None) items
      = filter (\<lambda>(city, price). map_of rows city = None) items"
  proof (rule filter_cong [OF refl])
    fix x assume "x \<in> set items"
    then have "fst x \<noteq> c" using notin by force
    then show "(case x of (city, price) \<Rightarrow> map_of (insert_or_ignore c p rows) city = None)
        = (case x of (city, price) \<Rightarrow> map_of rows city = None)"
      by (cases x) (simp add: map_of_insert_or_ignore_other)
  qed
  show ?case
    unfolding item insert_all.simps Cons.IH [OF d] same
    by (simp add: insert_or_ignore_append)
qed

lemma seed_cities_distinct: "distinct (map fst initial_ticket_prices)"
  by (simp add: initial_ticket_prices_def)

lemma insert_all_missing_seeds:
  "insert_all initial_ticket_prices rows = rows @ missing_seeds rows"
  unfolding missing_seeds_def by (rule insert_all_append [OF seed_cities_distinct])

text \<open>
  C6. Starting from a file without the table, any positive number of process starts
  leaves the table with the four rows london=799, paris=899, tokyo=1400, sydney=2999, one
  per city. On a table that has the program's schema, so that no city has two rows, the
  seeding step appends a row for each seed city that is not yet a key and leaves the row
  of a city that is a key as it was; the result has again one row per city, and running
  the step any number of times more changes nothing.
\<close>

theorem startups_seed_once:
  "0 < n \<Longrightarrow>
   startups n (Database None) =
     Inr (Database (Some [(''london'', Float 799), (''paris'', Float 899),
                          (''tokyo'', Float 1400), (''sydney'', Float 2999)]))
   \<and> (primary_key_holds rows \<longrightarrow>
        seed_database (Database (Some rows)) = Inr (Database (Some (rows @ missing_seeds rows)))
        \<and> primary_key_holds (rows @ missing_seeds rows)
        \<and> startups n (Database (Some (rows @ missing_seeds rows)))
            = Inr (Database (Some (rows @ missing_seeds rows))))"
proof (intro conjI impI)
  assume "0 < n"
  then obtain k where n: "n = Suc k" by (cases n) auto
  show "startups n (Database None) =
     Inr (Database (Some [(''london'', Float 799), (''paris'', Float 899),
                          (''tokyo'', Float 1400), (''sydney'', Float 2999)]))"
    unfolding n
    using startups_after_seeding [OF seed_database_fresh, of k] seed_database_fresh
    by simp
next
  show seeded: "seed_database (Database (Some rows))
      = Inr (Database (Some (rows @ missing_seeds rows)))"
    by (simp add: insert_all_missing_seeds)
  show "startups n (Database (Some (rows @ missing_seeds rows)))
      = Inr (Database (Some (rows @ missing_seeds rows)))"
    using seeded by (rule startups_after_seeding)
next
  assume "primary_key_holds rows"
  then have "distinct (map fst (insert_all initial_ticket_prices rows))"
    unfolding primary_key_holds_def by (rule insert_all_distinct)
  then show "primary_key_holds (rows @ missing_seeds rows)"
    by (simp only: primary_key_holds_def insert_all_missing_seeds)
qed

theorem startups_seed_once_witness:
  "(0::nat) < 3
   \<and> startups 3 (Database None) =
       Inr (Database (Some [(''london'', Float 799), (''paris'', Float 899),
                            (''tokyo'', Float 1400), (''sydney'', Float 2999)]))
   \<and> primary_key_holds [(''london'', Float 500)]
   \<and> missing_seeds [(''london'', Float 500)] =
       [(''paris'', Float 899), (''tokyo'', Float 1400), (''sydney'', Float 2999)]
   \<and> seed_database (Database (Some [(''london'', Float 500)])) =
       Inr (Database (Some [(''london'', Float 500), (''paris'', Float 899),
                            (''tokyo'', Float 1400), (''sydney'', Float 2999)]))
   \<and> primary_key_holds [(''london'', Float 500), (''paris'', Float 899),
                         (''tokyo'', Float 1400), (''sydney'', Float 2999)]
   \<and> startups 3 (Database (Some [(''london'', Float 500), (''paris'', Float 899),
                                  (''tokyo'', Float 1400), (''sydney'', Float 2999)])) =
       Inr (Database (Some [(''london'', Float 500), (''paris'', Float 899),
                            (''tokyo'', Float 1400), (''sydney'', Float 2999)]))"
proof -
  have a: "(0::nat) < 3" by simp
  have b: "primary_key_holds [(''london'', Float 500)]"
    by (simp add: primary_key_holds_def)
  have c: "missing_seeds [(''london'', Float 500)] =
       [(''paris'', Float 899), (''tokyo'', Float 1400), (''sydney'', Float 2999)]"
    by (simp add: missing_seeds_def initial_ticket_prices_def float_of_int_def)
  show ?thesis
    using a b c startups_seed_once [OF a, of "[(''london'', Float 500)]"]
    by simp
qed

subsection \<open>The price tool\<close>

lemma lower_char_upper_char:
  assumes lo: "97 \<le> (of_char d :: nat)" and hi: "(of_char d :: nat) \<le> 122"
  shows "lower_char (upper_char d) = d"
proof -
  define n where "n = (of_char d :: nat)"
  have u: "upper_char d = char_of (n - 32)"
    using lo hi by (simp add: upper_char_def n_def)
  have m: "(of_char (char_of (n - 32) :: char) :: nat) = n - 32"
    using lo hi by (simp add: n_def)
  have r: "65 \<le> n - 32 \<and> n - 32 \<le> 90"
    using lo hi unfolding n_def by arith
  have "lower_char (upper_char d) = char_of (n - 32 + 32)"
    unfolding u lower_char_def Let_def m using r by simp
  also have "n - 32 + 32 = n" using lo by (simp add: n_def)
  also have "char_of n = d" by (simp add: n_def)
  finally show ?thesis .
qed

lemma lower_char_small:
  "97 \<le> (of_char d :: nat) \<Longrightarrow> (of_char d :: nat) \<le> 122 \<Longrightarrow> lower_char d = d"
  by (simp add: lower_char_def)

lemma lower_case_variant:
  "case_variant s name \<Longrightarrow>
   list_all (\<lambda>d. 97 \<le> (of_char d :: nat) \<and> (of_char d :: nat) \<le> 122) name \<Longrightarrow>
   lower s = name"
  unfolding case_variant_def lower_def
  by (induction s name rule: list_all2_induct)
     (auto simp: lower_char_upper_char lower_char_small)

lemma seeded_names_small:
  "(name, price) \<in> set initial_ticket_prices \<Longrightarrow>
   list_all (\<lambda>d. 97 \<le> (of_char d :: nat) \<and> (of_char d :: nat) \<le> 122) name"
  by (auto simp: initial_ticket_prices_def)

lemma seeded_lookup:
  "(name, price) \<in> set initial_ticket_prices \<Longrightarrow>
   map_of [(''london'', Float 799), (''paris'', Float 899),
           (''tokyo'', Float 1400), (''sydney'', Float 2999)] name = Some (Float price)"
  by (auto simp: initial_ticket_prices_def)

lemma str_int_799: "str_int 799 = ''799''"
  by (simp add: str_int_def str_nat.simps digit_def)

text \<open>Once the line is printed, the tool is the \<open>try\<close> block with its handler.\<close>

lemma get_ticket_price_printed_pair:
  assumes "stdout_write rt (''TOOL CALLED: Getting price for '' @ city) = None"
  shows "get_ticket_price rt db city out =
     (case sqlite3_connect db of
        Inl e \<Rightarrow> Inr (''Error: '' @ format_exc rt 111 e)
      | Inr conn \<Rightarrow>
          (case select_price conn (lower city) of
             Inl e \<Rightarrow> Inr (''Error: '' @ format_exc rt 115 e)
           | Inr None \<Rightarrow> Inr ''Not found''
           | Inr (Some price) \<Rightarrow> Inr (''$'' @ float_str price)),
      out @ [''TOOL CALLED: Getting price for '' @ city])"
proof (cases db)
  case (CannotConnect t m)
  then show ?thesis using assms by (simp add: get_ticket_price_def print_def)
next
  case (CannotExecute t m)
  then show ?thesis using assms by (simp add: get_ticket_price_def print_def)
next
  case (Database table)
  show ?thesis
  proof (cases table)
    case None
    with Database show ?thesis using assms by (simp add: get_ticket_price_def print_def)
  next
    case (Some rows)
    with Database show ?thesis using assms
      by (cases "map_of rows (lower city)") (simp_all add: get_ticket_price_def print_def)
  qed
qed

lemma get_ticket_price_printed:
  assumes "stdout_write rt (''TOOL CALLED: Getting price for '' @ city) = None"
  shows "fst (get_ticket_price rt db city out) =
     (case sqlite3_connect db of
        Inl e \<Rightarrow> Inr (''Error: '' @ format_exc rt 111 e)
      | Inr conn \<Rightarrow>
          (case select_price conn (lower city) of
             Inl e \<Rightarrow> Inr (''Error: '' @ format_exc rt 115 e)
           | Inr None \<Rightarrow> Inr ''Not found''
           | Inr (Some price) \<Rightarrow> Inr (''$'' @ float_str price)))"
  by (simp only: get_ticket_price_printed_pair [OF assms] fst_conv)

lemma get_ticket_price_printed_stdout:
  assumes "stdout_write rt (''TOOL CALLED: Getting price for '' @ city) = None"
  shows "snd (get_ticket_price rt db city out)
     = out @ [''TOOL CALLED: Getting price for '' @ city]"
  by (simp only: get_ticket_price_printed_pair [OF assms] snd_conv)

text \<open>
  C4. What the tool does, case by case. When \<open>print\<close> raises, that exception leaves the
  tool and nothing is written: the \<open>print\<close> is outside the \<open>try\<close>. When the line is
  printed, the tool returns a string and raises nothing, for every state of the storage
  and every city:
  \<^item> \<open>Error: \<close> and the formatted traceback when connecting fails, when the query fails,
    and when the table is missing;
  \<^item> \<open>Not found\<close> when a table with the program's schema has no row for the lower-cased
    city, in particular on the seeded table for every city whose lower-cased name is not
    a seed city;
  \<^item> the dollar sign, the digits of the price and \<open>.0\<close> when it has one.
\<close>

theorem get_ticket_price_outcomes:
  "(stdout_write rt (''TOOL CALLED: Getting price for '' @ city) = Some e \<longrightarrow>
      get_ticket_price rt db city out = (Inl e, out))
   \<and> (stdout_write rt (''TOOL CALLED: Getting price for '' @ city) = None \<longrightarrow>
      (\<exists>s. get_ticket_price rt db city out
             = (Inr s, out @ [''TOOL CALLED: Getting price for '' @ city]))
      \<and> fst (get_ticket_price rt (CannotConnect t m) city out)
          = Inr (''Error: '' @ format_exc rt 111 (Exception t m))
      \<and> fst (get_ticket_price rt (CannotExecute t m) city out)
          = Inr (''Error: '' @ format_exc rt 115 (Exception t m))
      \<and> fst (get_ticket_price rt (Database None) city out)
          = Inr (''Error: '' @ format_exc rt 115
                  (Exception ''sqlite3.OperationalError'' ''no such table: prices''))
      \<and> (primary_key_holds rows \<longrightarrow> map_of rows (lower city) = None \<longrightarrow>
            fst (get_ticket_price rt (Database (Some rows)) city out) = Inr ''Not found'')
      \<and> (primary_key_holds rows \<longrightarrow>
          map_of rows (lower city) = Some (Float p) \<longrightarrow> \<bar>p\<bar> < 2 ^ 53 \<longrightarrow>
            fst (get_ticket_price rt (Database (Some rows)) city out)
              = Inr (''$'' @ str_int p @ ''.0''))
      \<and> (seed_database (Database None) = Inr seeded \<longrightarrow>
          lower city \<notin> fst ` set initial_ticket_prices \<longrightarrow>
            fst (get_ticket_price rt seeded city out) = Inr ''Not found''))"
proof (intro conjI impI)
  assume "stdout_write rt (''TOOL CALLED: Getting price for '' @ city) = Some e"
  then show "get_ticket_price rt db city out = (Inl e, out)"
    by (simp add: get_ticket_price_def print_def)
next
  assume ok: "stdout_write rt (''TOOL CALLED: Getting price for '' @ city) = None"
  have "\<exists>s. fst (get_ticket_price rt db city out) = Inr s"
    unfolding get_ticket_price_printed [OF ok]
    by (auto split: sum.splits option.splits)
  moreover have "snd (get_ticket_price rt db city out)
      = out @ [''TOOL CALLED: Getting price for '' @ city]"
    using ok by (rule get_ticket_price_printed_stdout)
  ultimately show "\<exists>s. get_ticket_price rt db city out
      = (Inr s, out @ [''TOOL CALLED: Getting price for '' @ city])"
    by (metis prod.collapse)
  show "fst (get_ticket_price rt (CannotConnect t m) city out)
      = Inr (''Error: '' @ format_exc rt 111 (Exception t m))"
    by (simp add: get_ticket_price_printed [OF ok])
  show "fst (get_ticket_price rt (CannotExecute t m) city out)
      = Inr (''Error: '' @ format_exc rt 115 (Exception t m))"
    by (simp add: get_ticket_price_printed [OF ok])
  show "fst (get_ticket_price rt (Database None) city out)
      = Inr (''Error: '' @ format_exc rt 115
              (Exception ''sqlite3.OperationalError'' ''no such table: prices''))"
    by (simp add: get_ticket_price_printed [OF ok])
  {
    assume "map_of rows (lower city) = None"
    then show "fst (get_ticket_price rt (Database (Some rows)) city out) = Inr ''Not found''"
      by (simp add: get_ticket_price_printed [OF ok])
  }
  {
    assume "map_of rows (lower city) = Some (Float p)"
    then show "fst (get_ticket_price rt (Database (Some rows)) city out)
        = Inr (''$'' @ str_int p @ ''.0'')"
      by (simp add: get_ticket_price_printed [OF ok])
  }
  {
    assume a: "seed_database (Database None) = Inr seeded"
      and b: "lower city \<notin> fst ` set initial_ticket_prices"
    have "map_of [(''london'', Float 799), (''paris'', Float 899),
                  (''tokyo'', Float 1400), (''sydney'', Float 2999)] (lower city) = None"
      using b by (simp add: map_of_eq_None_iff initial_ticket_prices_def)
    then show "fst (get_ticket_price rt seeded city out) = Inr ''Not found''"
      using a seed_database_fresh by (simp add: get_ticket_price_printed [OF ok])
  }
qed

theorem get_ticket_price_outcomes_witness:
  "stdout_write closed_stdout_runtime (''TOOL CALLED: Getting price for '' @ ''london'')
     = Some (Exception ''ValueError'' ''I/O operation on closed file.'')
   \<and> get_ticket_price closed_stdout_runtime
        (Database (Some [(''london'', Float 799), (''paris'', Float 899),
                         (''tokyo'', Float 1400), (''sydney'', Float 2999)])) ''london'' []
       = (Inl (Exception ''ValueError'' ''I/O operation on closed file.''), [])
   \<and> stdout_write working_runtime (''TOOL CALLED: Getting price for '' @ ''Berlin'') = None
   \<and> seed_database (Database None) =
       Inr (Database (Some [(''london'', Float 799), (''paris'', Float 899),
                            (''tokyo'', Float 1400), (''sydney'', Float 2999)]))
   \<and> lower ''Berlin'' \<notin> fst ` set initial_ticket_prices
   \<and> map_of [(''london'', Float 799), (''paris'', Float 899),
               (''tokyo'', Float 1400), (''sydney'', Float 2999)] (lower ''Berlin'') = None
   \<and> fst (get_ticket_price working_runtime
        (Database (Some [(''london'', Float 799), (''paris'', Float 899),
                         (''tokyo'', Float 1400), (''sydney'', Float 2999)])) ''Berlin'' [])
       = Inr ''Not found''
   \<and> fst (get_ticket_price working_runtime (Database None) ''Berlin'' [])
       = Inr (''Error: '' @ format_exc working_runtime 115
               (Exception ''sqlite3.OperationalError'' ''no such table: prices''))
   \<and> stdout_write working_runtime (''TOOL CALLED: Getting price for '' @ ''LONDON'') = None
   \<and> primary_key_holds [(''london'', Float 799), (''paris'', Float 899),
                          (''tokyo'', Float 1400), (''sydney'', Float 2999)]
   \<and> map_of [(''london'', Float 799), (''paris'', Float 899),
               (''tokyo'', Float 1400), (''sydney'', Float 2999)] (lower ''LONDON'')
       = Some (Float 799)
   \<and> \<bar>799 :: int\<bar> < 2 ^ 53
   \<and> fst (get_ticket_price working_runtime
        (Database (Some [(''london'', Float 799), (''paris'', Float 899),
                         (''tokyo'', Float 1400), (''sydney'', Float 2999)])) ''LONDON'' [])
       = Inr ''$799.0''"
proof -
  have d: "stdout_write working_runtime
      (''TOOL CALLED: Getting price for '' @ ''LONDON'') = None"
    by (simp add: working_runtime_def accepting_def)
  have pk: "primary_key_holds [(''london'', Float 799), (''paris'', Float 899),
                               (''tokyo'', Float 1400), (''sydney'', Float 2999)]"
    by (simp add: primary_key_holds_def)
  have f: "map_of [(''london'', Float 799), (''paris'', Float 899),
                   (''tokyo'', Float 1400), (''sydney'', Float 2999)] (lower ''LONDON'')
       = Some (Float 799)"
    by code_simp
  have g: "\<bar>799 :: int\<bar> < 2 ^ 53" by simp
  note present = get_ticket_price_outcomes [where rt = working_runtime
      and city = "''LONDON''" and out = "[]"
      and e = "Exception [] []"
      and db = "Database None"
      and t = "[]" and m = "[]" and p = 799
      and rows = "[(''london'', Float 799), (''paris'', Float 899),
                   (''tokyo'', Float 1400), (''sydney'', Float 2999)]"
      and seeded = "Database None"]
  from present d pk f g have "fst (get_ticket_price working_runtime
        (Database (Some [(''london'', Float 799), (''paris'', Float 899),
                         (''tokyo'', Float 1400), (''sydney'', Float 2999)])) ''LONDON'' [])
       = Inr (''$'' @ str_int 799 @ ''.0'')"
    by blast
  then have 4: "fst (get_ticket_price working_runtime
        (Database (Some [(''london'', Float 799), (''paris'', Float 899),
                         (''tokyo'', Float 1400), (''sydney'', Float 2999)])) ''LONDON'' [])
       = Inr ''$799.0''"
    by (simp add: str_int_799)
  have a: "stdout_write closed_stdout_runtime
      (''TOOL CALLED: Getting price for '' @ ''london'')
     = Some (Exception ''ValueError'' ''I/O operation on closed file.'')"
    by (simp add: closed_stdout_runtime_def closed_file_def)
  have b: "stdout_write working_runtime
      (''TOOL CALLED: Getting price for '' @ ''Berlin'') = None"
    by (simp add: working_runtime_def accepting_def)
  have c: "lower ''Berlin'' \<notin> fst ` set initial_ticket_prices"
    by code_simp
  have h: "map_of [(''london'', Float 799), (''paris'', Float 899),
                   (''tokyo'', Float 1400), (''sydney'', Float 2999)] (lower ''Berlin'') = None"
    by code_simp
  note closed = get_ticket_price_outcomes [where rt = closed_stdout_runtime
      and city = "''london''" and out = "[]"
      and e = "Exception ''ValueError'' ''I/O operation on closed file.''"
      and db = "Database (Some [(''london'', Float 799), (''paris'', Float 899),
                                (''tokyo'', Float 1400), (''sydney'', Float 2999)])"
      and t = "[]" and m = "[]" and rows = "[]" and p = 0
      and seeded = "Database None"]
  note working = get_ticket_price_outcomes [where rt = working_runtime
      and city = "''Berlin''" and out = "[]"
      and e = "Exception [] []"
      and db = "Database None"
      and t = "[]" and m = "[]" and p = 0
      and rows = "[(''london'', Float 799), (''paris'', Float 899),
                   (''tokyo'', Float 1400), (''sydney'', Float 2999)]"
      and seeded = "Database (Some [(''london'', Float 799), (''paris'', Float 899),
                                    (''tokyo'', Float 1400), (''sydney'', Float 2999)])"]
  from closed a have 1: "get_ticket_price closed_stdout_runtime
        (Database (Some [(''london'', Float 799), (''paris'', Float 899),
                         (''tokyo'', Float 1400), (''sydney'', Float 2999)])) ''london'' []
       = (Inl (Exception ''ValueError'' ''I/O operation on closed file.''), [])"
    by blast
  from working b pk h have 2: "fst (get_ticket_price working_runtime
        (Database (Some [(''london'', Float 799), (''paris'', Float 899),
                         (''tokyo'', Float 1400), (''sydney'', Float 2999)])) ''Berlin'' [])
       = Inr ''Not found''"
    by blast
  from working b have 3: "fst (get_ticket_price working_runtime (Database None) ''Berlin'' [])
       = Inr (''Error: '' @ format_exc working_runtime 115
               (Exception ''sqlite3.OperationalError'' ''no such table: prices''))"
    by blast
  from working b c seed_database_fresh have "fst (get_ticket_price working_runtime
        (Database (Some [(''london'', Float 799), (''paris'', Float 899),
                         (''tokyo'', Float 1400), (''sydney'', Float 2999)])) ''Berlin'' [])
       = Inr ''Not found''"
    by blast
  show ?thesis using a b c d pk f g h seed_database_fresh 1 2 3 4 by blast
qed

text \<open>
  C5. What the tool returns for a seeded city: for every seeded pair of city and price and
  every letter-case variant of the city's name, once the line is printed the result on
  the seeded table is the dollar sign, the digits of the price, and \<open>.0\<close>, since the REAL
  column hands the price back as a float. For any casing of london that is \<open>$799.0\<close>;
  the docstring's example is \<open>$799\<close>.
\<close>

theorem get_ticket_price_seeded:
  "(name, price) \<in> set initial_ticket_prices \<Longrightarrow>
   case_variant city name \<Longrightarrow>
   seed_database (Database None) = Inr seeded \<Longrightarrow>
   stdout_write rt (''TOOL CALLED: Getting price for '' @ city) = None \<Longrightarrow>
   fst (get_ticket_price rt seeded city out) = Inr (''$'' @ str_int price @ ''.0'')"
proof -
  assume a: "(name, price) \<in> set initial_ticket_prices"
    and b: "case_variant city name"
    and c: "seed_database (Database None) = Inr seeded"
    and ok: "stdout_write rt (''TOOL CALLED: Getting price for '' @ city) = None"
  have l: "lower city = name"
    using b seeded_names_small [OF a] by (rule lower_case_variant)
  have s: "seeded = Database (Some [(''london'', Float 799), (''paris'', Float 899),
                          (''tokyo'', Float 1400), (''sydney'', Float 2999)])"
    using c seed_database_fresh by simp
  have r: "select_price (Database (Some [(''london'', Float 799), (''paris'', Float 899),
                          (''tokyo'', Float 1400), (''sydney'', Float 2999)])) name
             = Inr (Some (Float price))"
    by (simp only: select_price.simps seeded_lookup [OF a])
  show ?thesis
    unfolding get_ticket_price_printed [OF ok] s l
    by (simp add: r del: select_price.simps)
qed

theorem get_ticket_price_seeded_witness:
  "(''london'', 799) \<in> set initial_ticket_prices
   \<and> case_variant ''LoNdOn'' ''london''
   \<and> seed_database (Database None) =
       Inr (Database (Some [(''london'', Float 799), (''paris'', Float 899),
                            (''tokyo'', Float 1400), (''sydney'', Float 2999)]))
   \<and> stdout_write working_runtime (''TOOL CALLED: Getting price for '' @ ''LoNdOn'') = None
   \<and> fst (get_ticket_price working_runtime
        (Database (Some [(''london'', Float 799), (''paris'', Float 899),
                         (''tokyo'', Float 1400), (''sydney'', Float 2999)])) ''LoNdOn'' [])
       = Inr ''$799.0''
   \<and> ''$799.0'' \<noteq> ''$799''"
proof -
  have a: "(''london'', 799) \<in> set initial_ticket_prices"
    by (simp add: initial_ticket_prices_def)
  have b: "case_variant ''LoNdOn'' ''london''" by code_simp
  have ok: "stdout_write working_runtime
      (''TOOL CALLED: Getting price for '' @ ''LoNdOn'') = None"
    by (simp add: working_runtime_def accepting_def)
  show ?thesis
    using a b ok seed_database_fresh
      get_ticket_price_seeded [OF a b seed_database_fresh ok, of "[]"]
    by (simp add: str_int_799)
qed

subsection \<open>The expression tool\<close>

text \<open>
  C7. What \<open>calculate\<close> does, case by case. When \<open>print\<close> raises, that exception leaves
  the tool: the \<open>print\<close> is outside the \<open>try\<close>. When the line is printed, the tool
  returns the string form of what \<open>eval\<close> yields, so \<open>719.1\<close> for an evaluator that
  yields the float 719.1 on \<open>799 * 0.9\<close>; when \<open>eval\<close> raises an exception derived from
  \<open>Exception\<close>, as \<open>SyntaxError\<close> for a malformed expression is, the tool returns
  \<open>Error: \<close> and the formatted traceback; an exception that is not derived from
  \<open>Exception\<close>, as \<open>SystemExit\<close>, leaves the tool.
\<close>

theorem calculate_outcomes:
  "(stdout_write rt (''TOOL CALLED: Calculating '' @ expr) = Some e \<longrightarrow>
      calculate rt expr out = (Inl e, out))
   \<and> (stdout_write rt (''TOOL CALLED: Calculating '' @ expr) = None \<longrightarrow>
      (eval rt expr = Inr v \<longrightarrow>
         calculate rt expr out = (Inr (str v), out @ [''TOOL CALLED: Calculating '' @ expr]))
      \<and> (eval rt expr = Inl (Exception t m) \<longrightarrow>
         calculate rt expr out
           = (Inr (''Error: '' @ format_exc rt 147 (Exception t m)),
              out @ [''TOOL CALLED: Calculating '' @ expr]))
      \<and> (eval rt expr = Inl (BaseException t m) \<longrightarrow>
         fst (calculate rt expr out) = Inl (BaseException t m)))"
  by (simp add: calculate_def print_def)

theorem calculate_outcomes_witness:
  "stdout_write closed_stdout_runtime (''TOOL CALLED: Calculating '' @ ''799 *'')
     = Some (Exception ''ValueError'' ''I/O operation on closed file.'')
   \<and> calculate closed_stdout_runtime ''799 *'' []
       = (Inl (Exception ''ValueError'' ''I/O operation on closed file.''), [])
   \<and> stdout_write working_runtime (''TOOL CALLED: Calculating '' @ ''799 * 0.9'') = None
   \<and> eval working_runtime ''799 * 0.9'' = Inr (PyObject ''719.1'')
   \<and> calculate working_runtime ''799 * 0.9'' []
       = (Inr ''719.1'', [''TOOL CALLED: Calculating 799 * 0.9''])
   \<and> stdout_write working_runtime (''TOOL CALLED: Calculating '' @ ''799 *'') = None
   \<and> eval working_runtime ''799 *''
       = Inl (Exception ''SyntaxError'' ''invalid syntax (<string>, line 1)'')
   \<and> calculate working_runtime ''799 *'' []
       = (Inr (''Error: '' @ format_exc working_runtime 147
                 (Exception ''SyntaxError'' ''invalid syntax (<string>, line 1)'')),
          [''TOOL CALLED: Calculating 799 *''])
   \<and> stdout_write exiting_runtime (''TOOL CALLED: Calculating '' @ ''exit()'') = None
   \<and> eval exiting_runtime ''exit()'' = Inl (BaseException ''SystemExit'' ''None'')
   \<and> fst (calculate exiting_runtime ''exit()'' [])
       = Inl (BaseException ''SystemExit'' ''None'')"
proof -
  have x: "stdout_write exiting_runtime (''TOOL CALLED: Calculating '' @ ''exit()'') = None"
    by (simp add: exiting_runtime_def accepting_def)
  have y: "eval exiting_runtime ''exit()'' = Inl (BaseException ''SystemExit'' ''None'')"
    by (simp add: exiting_runtime_def exit_eval_def)
  note exiting = calculate_outcomes [where rt = exiting_runtime and expr = "''exit()''"
      and out = "[]" and e = "Exception [] []"
      and v = "PyObject []" and t = "''SystemExit''" and m = "''None''"]
  from exiting x y have 4: "fst (calculate exiting_runtime ''exit()'' [])
       = Inl (BaseException ''SystemExit'' ''None'')"
    by simp
  have a: "stdout_write closed_stdout_runtime (''TOOL CALLED: Calculating '' @ ''799 *'')
     = Some (Exception ''ValueError'' ''I/O operation on closed file.'')"
    by (simp add: closed_stdout_runtime_def closed_file_def)
  have b: "stdout_write working_runtime (''TOOL CALLED: Calculating '' @ ''799 * 0.9'') = None"
    by (simp add: working_runtime_def accepting_def)
  have c: "eval working_runtime ''799 * 0.9'' = Inr (PyObject ''719.1'')"
    by (simp add: working_runtime_def spec_eval_def)
  have d: "stdout_write working_runtime (''TOOL CALLED: Calculating '' @ ''799 *'') = None"
    by (simp add: working_runtime_def accepting_def)
  have f: "eval working_runtime ''799 *''
       = Inl (Exception ''SyntaxError'' ''invalid syntax (<string>, line 1)'')"
    by (simp add: working_runtime_def spec_eval_def)
  note closed = calculate_outcomes [where rt = closed_stdout_runtime and expr = "''799 *''"
      and out = "[]" and e = "Exception ''ValueError'' ''I/O operation on closed file.''"
      and v = "PyObject []" and t = "[]" and m = "[]"]
  note valued = calculate_outcomes [where rt = working_runtime and expr = "''799 * 0.9''"
      and out = "[]" and e = "Exception [] []"
      and v = "PyObject ''719.1''" and t = "[]" and m = "[]"]
  note malformed = calculate_outcomes [where rt = working_runtime and expr = "''799 *''"
      and out = "[]" and e = "Exception [] []"
      and v = "PyObject []" and t = "''SyntaxError''"
      and m = "''invalid syntax (<string>, line 1)''"]
  from closed a have 1: "calculate closed_stdout_runtime ''799 *'' []
       = (Inl (Exception ''ValueError'' ''I/O operation on closed file.''), [])"
    by blast
  from valued b c have 2: "calculate working_runtime ''799 * 0.9'' []
       = (Inr ''719.1'', [''TOOL CALLED: Calculating 799 * 0.9''])"
    by simp
  from malformed d f have 3: "calculate working_runtime ''799 *'' []
       = (Inr (''Error: '' @ format_exc working_runtime 147
                 (Exception ''SyntaxError'' ''invalid syntax (<string>, line 1)'')),
          [''TOOL CALLED: Calculating 799 *''])"
    by simp
  show ?thesis using a b c d f x y 1 2 3 4 by blast
qed

end
